theory Spec2Isabelle
  imports Main "HOL-Library.List_Lexorder" "HOL-Library.Product_Lexorder" "HOL-Library.Multiset"
begin

unbundle bit_operations_syntax

section \<open>Python text and exceptions\<close>

text \<open>
  The renderers build \<^verbatim>\<open>unicode\<close> objects: sequences of code points, whose \<^verbatim>\<open>len\<close>
  counts code points (the ellipsis U+2026 is one of them). A text is therefore a list of
  code points; lists compare lexicographically, as Python compares strings.
\<close>

type_synonym ustring = "nat list"

definition ustr :: "string \<Rightarrow> ustring" where
  "ustr s = map of_char s"

definition NUL :: nat where
  "NUL = 0"

definition LF :: nat where
  "LF = 10"

definition ELLIPSIS :: nat where
  "ELLIPSIS = 8230"

text \<open>\<^verbatim>\<open>sep.join(xs)\<close>\<close>

fun py_join :: "ustring \<Rightarrow> ustring list \<Rightarrow> ustring" where
  "py_join sep [] = []"
| "py_join sep [x] = x"
| "py_join sep (x # y # ys) = x @ sep @ py_join sep (y # ys)"

text \<open>\<^verbatim>\<open>s.split(c)\<close> for a separator of one character: never an empty list.\<close>

fun py_split :: "nat \<Rightarrow> ustring \<Rightarrow> ustring list" where
  "py_split c [] = [[]]"
| "py_split c (x # xs) =
     (if x = c then [] # py_split c xs
      else (case py_split c xs of
              [] \<Rightarrow> [[x]]
            | h # t \<Rightarrow> (x # h) # t))"

text \<open>\<^verbatim>\<open>a or b\<close> on texts: the first operand unless it is empty.\<close>

definition py_or :: "ustring \<Rightarrow> ustring \<Rightarrow> ustring" where
  "py_or a b = (if a \<noteq> [] then a else b)"

text \<open>
  The exceptions raised. \<^verbatim>\<open>ValueError\<close> carries the column specification that its message
  is built from.
\<close>

datatype error =
    AttributeError string
  | TypeError
  | IndexError
  | ValueError "(string \<times> ustring) list"

section \<open>Cells\<close>

text \<open>
  Modelled from the spec: \<^verbatim>\<open>text.Cell\<close> is not under src/. The spec's Cell is an
  ordered list of text lines, never absent and empty when there is no content, with an
  optional width and optional highlight spans. The text handed to the constructor is cut
  at each line feed; a line feed that ends the text opens no further line.
\<close>

record cell =
  lines :: "ustring list"
  width :: "nat option"
  highlights :: "(int \<times> int \<times> string \<times> string option) list"

fun cut_lines :: "ustring \<Rightarrow> ustring \<Rightarrow> ustring list" where
  "cut_lines cur [] = (if cur = [] then [] else [cur])"
| "cut_lines cur (c # cs) =
     (if c = LF then cur # cut_lines [] cs else cut_lines (cur @ [c]) cs)"

definition Cell :: "ustring \<Rightarrow> cell" where
  "Cell t = \<lparr> lines = cut_lines [] t, width = None, highlights = [] \<rparr>"

section \<open>The renderer classes of base\_objects.py\<close>

datatype renderer_class =
    TextObjectRenderer
  | PluginObjectTextRenderer
  | BaseObjectTextRenderer
  | StringTextRenderer
  | NoneObjectTextRenderer
  | NoneTextRenderer
  | UnixTimestampObjectRenderer
  | PythonBoolTextRenderer
  | PythonSetRenderer
  | NativeTypeTextRenderer
  | BaseBoolTextRenderer
  | FlagsTextRenderer
  | EnumerationTextRenderer
  | DatetimeTextRenderer
  | PointerTextRenderer
  | ListRenderer
  | VoidTextRenderer
  | FunctionTextRenderer
  | StructTextRenderer

text \<open>The base class named in each \<^verbatim>\<open>class\<close> statement.\<close>

fun superclass :: "renderer_class \<Rightarrow> renderer_class option" where
  "superclass TextObjectRenderer = None"
| "superclass PluginObjectTextRenderer = Some TextObjectRenderer"
| "superclass BaseObjectTextRenderer = Some TextObjectRenderer"
| "superclass StringTextRenderer = Some BaseObjectTextRenderer"
| "superclass NoneObjectTextRenderer = Some BaseObjectTextRenderer"
| "superclass NoneTextRenderer = Some NoneObjectTextRenderer"
| "superclass UnixTimestampObjectRenderer = Some BaseObjectTextRenderer"
| "superclass PythonBoolTextRenderer = Some TextObjectRenderer"
| "superclass PythonSetRenderer = Some TextObjectRenderer"
| "superclass NativeTypeTextRenderer = Some BaseObjectTextRenderer"
| "superclass BaseBoolTextRenderer = Some PythonBoolTextRenderer"
| "superclass FlagsTextRenderer = Some BaseObjectTextRenderer"
| "superclass EnumerationTextRenderer = Some BaseObjectTextRenderer"
| "superclass DatetimeTextRenderer = Some TextObjectRenderer"
| "superclass PointerTextRenderer = Some NativeTypeTextRenderer"
| "superclass ListRenderer = Some TextObjectRenderer"
| "superclass VoidTextRenderer = Some PointerTextRenderer"
| "superclass FunctionTextRenderer = Some BaseObjectTextRenderer"
| "superclass StructTextRenderer = Some TextObjectRenderer"

text \<open>
  What a name is bound to in a class body: a function, named by the class whose body
  holds its \<^verbatim>\<open>def\<close> and by the name of that \<^verbatim>\<open>def\<close> (so that
  \<^verbatim>\<open>render_value = render_full\<close> binds a second name to the same function), or a
  class attribute that is no function.
\<close>

datatype binding = Function renderer_class string | Attribute

text \<open>
  Modelled from the spec: \<^verbatim>\<open>text.TextObjectRenderer\<close> is not under src/. The spec gives
  a renderer entry the render methods address, full, compact, value, row and header;
  \<^verbatim>\<open>format_address\<close>, \<^verbatim>\<open>ForTarget\<close>, the session and the output renderer are what the
  subclasses use of it.
\<close>

definition TextObjectRenderer_body :: "(string \<times> binding) list" where
  "TextObjectRenderer_body =
     [(''render_address'', Function TextObjectRenderer ''render_address''),
      (''render_full'', Function TextObjectRenderer ''render_full''),
      (''render_compact'', Function TextObjectRenderer ''render_compact''),
      (''render_value'', Function TextObjectRenderer ''render_value''),
      (''render_row'', Function TextObjectRenderer ''render_row''),
      (''render_header'', Function TextObjectRenderer ''render_header''),
      (''format_address'', Function TextObjectRenderer ''format_address''),
      (''ForTarget'', Function TextObjectRenderer ''ForTarget''),
      (''session'', Attribute),
      (''renderer'', Attribute)]"

text \<open>The body of each class of the file: the names its statements bind.\<close>

fun class_body :: "renderer_class \<Rightarrow> (string \<times> binding) list" where
  "class_body TextObjectRenderer = TextObjectRenderer_body"
| "class_body PluginObjectTextRenderer =
     [(''renders_type'', Attribute),
      (''render_full'', Function PluginObjectTextRenderer ''render_full''),
      (''render_compact'', Function PluginObjectTextRenderer ''render_compact'')]"
| "class_body BaseObjectTextRenderer =
     [(''renders_type'', Attribute),
      (''render_address'', Function BaseObjectTextRenderer ''render_address''),
      (''render_full'', Function BaseObjectTextRenderer ''render_full''),
      (''render_value'', Function BaseObjectTextRenderer ''render_value'')]"
| "class_body StringTextRenderer =
     [(''renders_type'', Attribute),
      (''render_full'', Function StringTextRenderer ''render_full''),
      (''render_value'', Function StringTextRenderer ''render_full''),
      (''render_compact'', Function StringTextRenderer ''render_full'')]"
| "class_body NoneObjectTextRenderer =
     [(''renders_type'', Attribute),
      (''render_row'', Function NoneObjectTextRenderer ''render_row'')]"
| "class_body NoneTextRenderer =
     [(''renders_type'', Attribute)]"
| "class_body UnixTimestampObjectRenderer =
     [(''renders_type'', Attribute),
      (''render_row'', Function UnixTimestampObjectRenderer ''render_row'')]"
| "class_body PythonBoolTextRenderer =
     [(''renders_type'', Attribute),
      (''render_full'', Function PythonBoolTextRenderer ''render_full''),
      (''render_value'', Function PythonBoolTextRenderer ''render_full''),
      (''render_compact'', Function PythonBoolTextRenderer ''render_full'')]"
| "class_body PythonSetRenderer =
     [(''renders_type'', Attribute),
      (''render_full'', Function PythonSetRenderer ''render_full''),
      (''render_compact'', Function PythonSetRenderer ''render_compact'')]"
| "class_body NativeTypeTextRenderer =
     [(''renders_type'', Attribute),
      (''render_address'', Function NativeTypeTextRenderer ''render_address'')]"
| "class_body BaseBoolTextRenderer =
     [(''renders_type'', Attribute),
      (''render_row'', Function BaseBoolTextRenderer ''render_row'')]"
| "class_body FlagsTextRenderer =
     [(''renders_type'', Attribute),
      (''render_full'', Function FlagsTextRenderer ''render_full''),
      (''render_value'', Function FlagsTextRenderer ''render_value''),
      (''render_compact'', Function FlagsTextRenderer ''render_compact'')]"
| "class_body EnumerationTextRenderer =
     [(''renders_type'', Attribute),
      (''render_full'', Function EnumerationTextRenderer ''render_full''),
      (''render_compact'', Function EnumerationTextRenderer ''render_full'')]"
| "class_body DatetimeTextRenderer =
     [(''renders_type'', Attribute),
      (''render_row'', Function DatetimeTextRenderer ''render_row'')]"
| "class_body PointerTextRenderer =
     [(''renders_type'', Attribute),
      (''render_value'', Function PointerTextRenderer ''render_value''),
      (''render_full'', Function PointerTextRenderer ''render_full''),
      (''render_compact'', Function PointerTextRenderer ''render_compact'')]"
| "class_body ListRenderer =
     [(''renders_type'', Attribute),
      (''render_row'', Function ListRenderer ''render_row'')]"
| "class_body VoidTextRenderer =
     [(''renders_type'', Attribute),
      (''render_full'', Function VoidTextRenderer ''render_full''),
      (''render_compact'', Function VoidTextRenderer ''render_full'')]"
| "class_body FunctionTextRenderer =
     [(''renders_type'', Attribute),
      (''render_full'', Function FunctionTextRenderer ''render_full''),
      (''render_compact'', Function FunctionTextRenderer ''render_compact''),
      (''render_value'', Function FunctionTextRenderer ''render_compact'')]"
| "class_body StructTextRenderer =
     [(''renders_type'', Attribute),
      (''DEFAULT_STYLE'', Attribute),
      (''renderers'', Attribute),
      (''COLUMNS'', Attribute),
      (''table'', Attribute),
      (''__init__'', Function StructTextRenderer ''__init__''),
      (''render_full'', Function StructTextRenderer ''render_full''),
      (''render_header'', Function StructTextRenderer ''render_header''),
      (''render_compact'', Function StructTextRenderer ''render_compact''),
      (''render_repr'', Function StructTextRenderer ''render_repr'')]"

text \<open>
  The method resolution order: the class, then its base classes (every class of the file
  has one base). The walk is bounded by the number of classes, 19.
\<close>

fun mro_upto :: "nat \<Rightarrow> renderer_class \<Rightarrow> renderer_class list" where
  "mro_upto 0 c = [c]"
| "mro_upto (Suc n) c =
     (case superclass c of None \<Rightarrow> [c] | Some b \<Rightarrow> c # mro_upto n b)"

definition mro :: "renderer_class \<Rightarrow> renderer_class list" where
  "mro c = mro_upto 19 c"

text \<open>Attribute lookup on a renderer object: the first class of the order that binds the name.\<close>

fun lookup_in :: "renderer_class list \<Rightarrow> string \<Rightarrow> binding option" where
  "lookup_in [] name = None"
| "lookup_in (c # cs) name =
     (case map_of (class_body c) name of
        Some b \<Rightarrow> Some b
      | None \<Rightarrow> lookup_in cs name)"

definition getattr_renderer :: "renderer_class \<Rightarrow> string \<Rightarrow> binding option" where
  "getattr_renderer c name = lookup_in (mro c) name"

section \<open>NoneObjectTextRenderer, NoneTextRenderer\<close>

text \<open>
  \<^verbatim>\<open>render_row(self, target, **_)\<close>: the entry point of a render. The verbosity asked
  for arrives as the keyword option \<^verbatim>\<open>style\<close> and is dropped with the other options;
  the target is not looked at, whatever its type.
\<close>

datatype style = full | compact | value_style | address

definition NoneObjectTextRenderer_render_row :: "'a \<Rightarrow> style option \<Rightarrow> cell" where
  "NoneObjectTextRenderer_render_row target style_option = Cell (ustr ''-'')"

section \<open>StringTextRenderer\<close>

text \<open>
  \<^verbatim>\<open>utils.SmartUnicode\<close> is not under src/: the conversion of the target to its text
  is a parameter. \<^verbatim>\<open>split("\x00")[0]\<close> is the first piece, and the index raises on an
  empty list.
\<close>

definition StringTextRenderer_render_full :: "('a \<Rightarrow> ustring) \<Rightarrow> 'a \<Rightarrow> error + cell" where
  "StringTextRenderer_render_full SmartUnicode target =
     (case py_split NUL (SmartUnicode target) of
        [] \<Rightarrow> Inl IndexError
      | first # _ \<Rightarrow> Inr (Cell (py_or first [])))"

text \<open>\<^verbatim>\<open>render_value = render_full\<close> and \<^verbatim>\<open>render_compact = render_full\<close>\<close>

definition StringTextRenderer_render_value :: "('a \<Rightarrow> ustring) \<Rightarrow> 'a \<Rightarrow> error + cell" where
  "StringTextRenderer_render_value = StringTextRenderer_render_full"

definition StringTextRenderer_render_compact :: "('a \<Rightarrow> ustring) \<Rightarrow> 'a \<Rightarrow> error + cell" where
  "StringTextRenderer_render_compact = StringTextRenderer_render_full"

section \<open>FlagsTextRenderer\<close>

text \<open>
  A bit-flags value as the renderer reads it: \<^verbatim>\<open>target.v()\<close>, an integer, and
  \<^verbatim>\<open>target.maskmap\<close>, a dictionary from flag name to mask, here the list of its items
  in any order (a dictionary holds each name once).
\<close>

record Flags =
  Flags_v :: int
  maskmap :: "(ustring \<times> int) list"

text \<open>The loop over the sorted items: a name is appended when \<^verbatim>\<open>value & v\<close> is not zero.\<close>

fun append_flags :: "int \<Rightarrow> (ustring \<times> int) list \<Rightarrow> ustring list" where
  "append_flags n [] = []"
| "append_flags n ((k, m) # items) =
     (if n AND m \<noteq> 0 then k # append_flags n items else append_flags n items)"

definition FlagsTextRenderer_flags :: "Flags \<Rightarrow> ustring list" where
  "FlagsTextRenderer_flags target = append_flags (Flags_v target) (sort (maskmap target))"

definition FlagsTextRenderer_render_full :: "Flags \<Rightarrow> cell" where
  "FlagsTextRenderer_render_full target =
     Cell (py_join (ustr '', '') (FlagsTextRenderer_flags target))"

text \<open>
  \<^verbatim>\<open>render_value\<close> evaluates \<^verbatim>\<open>self.v()\<close>: an attribute lookup on the renderer object.
  What calling a bound name and converting the result to text would give is a parameter;
  a name that is not bound raises \<^verbatim>\<open>AttributeError\<close>.
\<close>

definition FlagsTextRenderer_render_value ::
    "(binding \<Rightarrow> error + ustring) \<Rightarrow> Flags \<Rightarrow> error + cell" where
  "FlagsTextRenderer_render_value unicode_call target =
     (case getattr_renderer FlagsTextRenderer ''v'' of
        None \<Rightarrow> Inl (AttributeError ''v'')
      | Some b \<Rightarrow> (case unicode_call b of Inl e \<Rightarrow> Inl e | Inr t \<Rightarrow> Inr (Cell t)))"

definition FlagsTextRenderer_render_compact :: "Flags \<Rightarrow> cell" where
  "FlagsTextRenderer_render_compact target =
     (case lines (FlagsTextRenderer_render_full target) of
        [] \<Rightarrow> Cell (ustr ''-'')
      | elided # _ \<Rightarrow>
          Cell (if length elided > 40 then take 39 elided @ [ELLIPSIS] else elided))"

section \<open>A render through a renderer object\<close>

text \<open>
  \<^verbatim>\<open>cls(...).render_row(target, style=s)\<close>: the function that the class's resolution
  order binds to \<^verbatim>\<open>render_row\<close>, applied to the target. The functions of the other
  classes (the default of \<^verbatim>\<open>TextObjectRenderer\<close>, not under src/, which looks for the
  method of the style, and the overrides of the timestamp, boolean, date and list
  renderers) are a parameter.
\<close>

definition render_row ::
    "(renderer_class \<Rightarrow> string \<Rightarrow> 'a \<Rightarrow> style option \<Rightarrow> error + cell)
      \<Rightarrow> renderer_class \<Rightarrow> 'a \<Rightarrow> style option \<Rightarrow> error + cell" where
  "render_row other_render_row c target style_option =
     (case getattr_renderer c ''render_row'' of
        None \<Rightarrow> Inl (AttributeError ''render_row'')
      | Some Attribute \<Rightarrow> Inl TypeError
      | Some (Function d name) \<Rightarrow>
          (if d = NoneObjectTextRenderer \<and> name = ''render_row''
           then Inr (NoneObjectTextRenderer_render_row target style_option)
           else other_render_row d name target style_option))"

section \<open>check\_modules.py\<close>

text \<open>
  A typed struct of the memory image is known by its type and its offset: two typed
  values of one type at one offset are the same object, which is what membership in a
  Python set of them tests.
\<close>

datatype struct_object = Struct_at string int

text \<open>
  A kobject of the kernel object set, as the plugin reads it: its offset, its name and
  \<^verbatim>\<open>kobj.kref.refcount.counter\<close>.
\<close>

record kobject =
  kobj_offset :: int
  kobj_name :: ustring
  refcount :: int

text \<open>
  Modelled from the spec: the truth value of \<^verbatim>\<open>kobj.name\<close> belongs to the object model,
  not under src/. The spec skips the unnamed entries: a name is true when it is not empty.
\<close>

definition name_is_true :: "ustring \<Rightarrow> bool" where
  "name_is_true n = (n \<noteq> [])"

text \<open>
  What the plugin reads of a memory image: the entries of \<^verbatim>\<open>module_kset.list\<close> in list
  order, the modules that \<^verbatim>\<open>lsmod.get_module_list()\<close> yields, the name member of a
  struct module, and the offset of the member \<^verbatim>\<open>mkobj\<close> within struct module.
\<close>

record image =
  module_kset :: "kobject list"
  get_module_list :: "struct_object list"
  name_of_module :: "struct_object \<Rightarrow> ustring"
  mkobj_offset :: int

text \<open>
  Modelled from the spec: \<^verbatim>\<open>basic.container_of\<close> is not under src/. The containing
  structure is recovered by subtracting the known byte offset of the embedded member from
  the kernel object's own offset and reinterpreting the result as the container type.
\<close>

definition container_of :: "image \<Rightarrow> kobject \<Rightarrow> string \<Rightarrow> struct_object" where
  "container_of img kobj type_name = Struct_at type_name (kobj_offset kobj - mkobj_offset img)"

text \<open>\<^verbatim>\<open>get_kset_modules\<close>: the generator yields the entries whose name is true.\<close>

fun kset_named :: "kobject list \<Rightarrow> kobject list" where
  "kset_named [] = []"
| "kset_named (kobj # rest) =
     (if name_is_true (kobj_name kobj) then kobj # kset_named rest else kset_named rest)"

definition get_kset_modules :: "image \<Rightarrow> kobject list" where
  "get_kset_modules img = kset_named (module_kset img)"

text \<open>The output renderer: the calls it has received, in order.\<close>

datatype table_call =
    table_header "(string \<times> string \<times> string) list"
  | table_row struct_object ustring int bool

definition check_modules_header :: "(string \<times> string \<times> string) list" where
  "check_modules_header =
     [(''Module'', ''module_addr'', ''[addrpad]''),
      (''Module Name'', ''module'', ''30''),
      (''Ref Count'', ''refcount'', ''^10''),
      (''Known'', ''known'', '''')]"

text \<open>
  The loop of \<^verbatim>\<open>render\<close> over the yielded kobjects; \<^verbatim>\<open>modules\<close> is the set built before
  it. The loop also reads \<^verbatim>\<open>kobj.name.deref()\<close> into a variable that it never uses.
\<close>

fun render_loop ::
    "image \<Rightarrow> struct_object set \<Rightarrow> kobject list \<Rightarrow> table_call list \<Rightarrow> table_call list" where
  "render_loop img modules [] renderer = renderer"
| "render_loop img modules (kobj # rest) renderer =
     (let ref_count = refcount kobj in
      if ref_count < 3 then render_loop img modules rest renderer
      else
        (let container_module = container_of img kobj ''module'' in
         render_loop img modules rest
           (renderer @ [table_row container_module (name_of_module img container_module)
                          ref_count (container_module \<in> modules)])))"

definition render :: "image \<Rightarrow> table_call list \<Rightarrow> table_call list" where
  "render img renderer =
     (let renderer1 = renderer @ [table_header check_modules_header];
          modules = set (get_module_list img)
      in render_loop img modules (get_kset_modules img) renderer1)"

section \<open>check\_modules.py run against collaborators that keep state\<close>

text \<open>
  Above, \<^verbatim>\<open>render\<close> reads a fixed image. In a run, every read goes through a collaborator
  that is not under src/ and that may keep state of its own: the session and the plugins
  it builds, the profile, the address space and their caches. Here the same statements
  run against such collaborators. A collaborator call takes the state \<open>'w\<close> of all of them
  and returns its answer with the state it leaves:
  \<^item> \<^verbatim>\<open>self.session.plugins.lsmod(session=self.session).get_module_list()\<close>, run to its
    end by \<^verbatim>\<open>set(...)\<close>;
  \<^item> \<^verbatim>\<open>self.profile.get_constant_object("module_kset", ...).list.list_of_type("kobject",
    "entry")\<close>, run to its end, each entry with the fields the plugin reads of it;
  \<^item> \<^verbatim>\<open>basic.container_of(kobj, type_name, member)\<close>;
  \<^item> the member \<^verbatim>\<open>name\<close> of a container module.
\<close>

record 'w collaborators =
  lsmod_get_module_list :: "'w \<Rightarrow> struct_object list \<times> 'w"
  list_of_type :: "'w \<Rightarrow> kobject list \<times> 'w"
  basic_container_of :: "kobject \<Rightarrow> string \<Rightarrow> string \<Rightarrow> 'w \<Rightarrow> struct_object \<times> 'w"
  read_name :: "struct_object \<Rightarrow> 'w \<Rightarrow> ustring \<times> 'w"

text \<open>\<^verbatim>\<open>get_kset_modules\<close>: the entries of the traversal whose name is true.\<close>

definition run_get_kset_modules :: "'w collaborators \<Rightarrow> 'w \<Rightarrow> kobject list \<times> 'w" where
  "run_get_kset_modules C w =
     (case list_of_type C w of (entries, w1) \<Rightarrow> (kset_named entries, w1))"

text \<open>
  The loop of \<^verbatim>\<open>render\<close>: the state of the collaborators and the output renderer are
  passed from one kobject to the next. The plugin object itself is assigned no attribute.
\<close>

fun run_render_loop ::
    "'w collaborators \<Rightarrow> struct_object set \<Rightarrow> kobject list \<Rightarrow> 'w \<times> table_call list
      \<Rightarrow> 'w \<times> table_call list" where
  "run_render_loop C modules [] (w, renderer) = (w, renderer)"
| "run_render_loop C modules (kobj # rest) (w, renderer) =
     (let ref_count = refcount kobj in
      if ref_count < 3 then run_render_loop C modules rest (w, renderer)
      else
        (case basic_container_of C kobj ''module'' ''mkobj'' w of
           (container_module, w1) \<Rightarrow>
             (case read_name C container_module w1 of
                (name, w2) \<Rightarrow>
                  run_render_loop C modules rest
                    (w2, renderer @ [table_row container_module name ref_count
                                       (container_module \<in> modules)]))))"

definition run_render :: "'w collaborators \<Rightarrow> 'w \<times> table_call list \<Rightarrow> 'w \<times> table_call list" where
  "run_render C s =
     (case s of (w, renderer) \<Rightarrow>
        (let renderer1 = renderer @ [table_header check_modules_header] in
         case lsmod_get_module_list C w of
           (module_list, w1) \<Rightarrow>
             (let modules = set module_list in
              case run_get_kset_modules C w1 of
                (kobjs, w2) \<Rightarrow> run_render_loop C modules kobjs (w2, renderer1))))"

text \<open>
  The collaborators are read-only views of a memory image: in every state, each call
  answers with what the image of that state holds, and leaves a state with the same image.
  Whatever else the state holds (caches, counters, plugin objects) may change.
\<close>

definition read_only_views :: "'w collaborators \<Rightarrow> ('w \<Rightarrow> image) \<Rightarrow> bool" where
  "read_only_views C image_of \<longleftrightarrow>
     (\<forall>w. fst (lsmod_get_module_list C w) = get_module_list (image_of w)
          \<and> image_of (snd (lsmod_get_module_list C w)) = image_of w)
   \<and> (\<forall>w. fst (list_of_type C w) = module_kset (image_of w)
          \<and> image_of (snd (list_of_type C w)) = image_of w)
   \<and> (\<forall>w kobj type_name.
          fst (basic_container_of C kobj type_name ''mkobj'' w)
            = container_of (image_of w) kobj type_name
          \<and> image_of (snd (basic_container_of C kobj type_name ''mkobj'' w)) = image_of w)
   \<and> (\<forall>w m. fst (read_name C m w) = name_of_module (image_of w) m
          \<and> image_of (snd (read_name C m w)) = image_of w)"

text \<open>
  The phases of the reconciliation in the words of the spec, to compare the code with.
  TraverseStructural walks the kernel object set, skips the unnamed entries and those with
  fewer than 3 references, and recovers the container of each surviving entry;
  TraverseIndependent is the set of the modules of the module list; Reconcile tests each
  recovered module for membership in that set, by object; Report is one row for each
  recovered module: the module, its name, the reference count and the known flag.
\<close>

definition spec_TraverseStructural :: "image \<Rightarrow> (struct_object \<times> int) list" where
  "spec_TraverseStructural img =
     map (\<lambda>kobj. (container_of img kobj ''module'', refcount kobj))
       (filter (\<lambda>kobj. kobj_name kobj \<noteq> [] \<and> 3 \<le> refcount kobj) (module_kset img))"

definition spec_TraverseIndependent :: "image \<Rightarrow> struct_object set" where
  "spec_TraverseIndependent img = set (get_module_list img)"

definition spec_Reconcile :: "image \<Rightarrow> (struct_object \<times> int \<times> bool) list" where
  "spec_Reconcile img =
     map (\<lambda>(m, ref_count). (m, ref_count, m \<in> spec_TraverseIndependent img))
       (spec_TraverseStructural img)"

definition spec_Report :: "image \<Rightarrow> table_call list" where
  "spec_Report img =
     map (\<lambda>(m, ref_count, known). table_row m (name_of_module img m) ref_count known)
       (spec_Reconcile img)"

section \<open>StructTextRenderer: the full render\<close>

text \<open>\<^verbatim>\<open>"%02X" % n\<close>: upper-case hexadecimal, filled with zeros to two characters.\<close>

definition hex_digit :: "nat \<Rightarrow> nat" where
  "hex_digit d = (if d < 10 then 48 + d else 55 + d)"

fun hex_digits :: "nat \<Rightarrow> ustring" where
  "hex_digits n =
     (if n < 16 then [hex_digit n] else hex_digits (n div 16) @ [hex_digit (n mod 16)])"

declare hex_digits.simps [simp del]

definition format_02X :: "int \<Rightarrow> ustring" where
  "format_02X n =
     (if n < 0 then ustr ''-'' @ hex_digits (nat (- n))
      else replicate (2 - length (hex_digits (nat n))) 48 @ hex_digits (nat n))"

text \<open>
  What the renderer reads of an object held in a member: whether it compares equal to
  \<^verbatim>\<open>None\<close>, its attribute \<^verbatim>\<open>obj_offset\<close> when it has one (a plain Python value has
  none), and \<^verbatim>\<open>utils.SmartUnicode(repr(obj))\<close>.
\<close>

record member_object =
  equals_None :: bool
  obj_offset :: "int option"
  repr :: ustring

text \<open>
  What the renderer reads of a struct: \<^verbatim>\<open>target.obj_offset\<close>, \<^verbatim>\<open>repr(target)\<close>, and
  the keys of \<^verbatim>\<open>target.members\<close> in iteration order, each with what
  \<^verbatim>\<open>getattr(target, k)\<close> and \<^verbatim>\<open>target.m(k)\<close> answer.
\<close>

record Struct =
  Struct_offset :: int
  Struct_repr :: ustring
  members :: "(ustring \<times> member_object \<times> member_object) list"

type_synonym field = "int \<times> ustring \<times> ustring"

text \<open>
  One pass of the loop body: the member's value, replaced by \<^verbatim>\<open>target.m(k)\<close> when it
  equals \<^verbatim>\<open>None\<close>, gives the tuple of its offset within the struct, its name and its
  representation.
\<close>

definition member_field :: "int \<Rightarrow> ustring \<times> member_object \<times> member_object \<Rightarrow> field" where
  "member_field target_offset m =
     (case m of (k, attr, raw) \<Rightarrow>
        (let obj = (if equals_None attr then raw else attr) in
         ((case obj_offset obj of Some off \<Rightarrow> off | None \<Rightarrow> target_offset) - target_offset,
          k, repr obj)))"

fun members_loop ::
    "int \<Rightarrow> (ustring \<times> member_object \<times> member_object) list \<Rightarrow> nat \<Rightarrow> field list
      \<Rightarrow> nat \<times> field list" where
  "members_loop target_offset [] width_name field_list = (width_name, field_list)"
| "members_loop target_offset (m # rest) width_name field_list =
     members_loop target_offset rest (max width_name (length (fst m)))
       (field_list @ [member_field target_offset m])"

definition StructTextRenderer_width_name :: "Struct \<Rightarrow> nat" where
  "StructTextRenderer_width_name target =
     fst (members_loop (Struct_offset target) (members target) 0 [])"

text \<open>The list \<^verbatim>\<open>fields\<close> after \<^verbatim>\<open>fields.sort()\<close>: tuples compare lexicographically.\<close>

definition StructTextRenderer_fields :: "Struct \<Rightarrow> field list" where
  "StructTextRenderer_fields target =
     sort (snd (members_loop (Struct_offset target) (members target) 0 []))"

text \<open>\<^verbatim>\<open>u"  0x%02X %s%s %s" % (offset, k, " " * (width_name - len(k)), v)\<close>\<close>

definition format_field :: "nat \<Rightarrow> field \<Rightarrow> ustring" where
  "format_field width_name f =
     (case f of (offset, k, v) \<Rightarrow>
        ustr ''  0x'' @ format_02X offset @ ustr '' '' @ k
          @ replicate (width_name - length k) 32 @ ustr '' '' @ v)"

definition StructTextRenderer_render_full :: "Struct \<Rightarrow> cell" where
  "StructTextRenderer_render_full target =
     Cell (Struct_repr target @ [LF]
           @ py_join [LF] (map (format_field (StructTextRenderer_width_name target))
                            (StructTextRenderer_fields target))
           @ [LF])"

section \<open>StructTextRenderer: construction and the compact render\<close>

text \<open>A column specification: a dictionary, here the list of its items.\<close>

type_synonym column = "(string \<times> ustring) list"

text \<open>
  The renderer object after \<^verbatim>\<open>__init__\<close>: \<^verbatim>\<open>self.columns\<close> and \<^verbatim>\<open>self.table\<close>, whose
  class default is \<^verbatim>\<open>None\<close>.
\<close>

record 't struct_renderer =
  columns :: "column list option"
  table :: "'t option"

text \<open>
  \<^verbatim>\<open>__init__\<close>: \<^verbatim>\<open>kwargs.pop("columns", self.COLUMNS)\<close> is the argument (\<^verbatim>\<open>COLUMNS\<close> is
  \<^verbatim>\<open>None\<close>); the table is built when the columns are true, that is neither \<^verbatim>\<open>None\<close>
  nor empty. \<^verbatim>\<open>text.TextTable\<close> is not under src/: its constructor is a parameter.
\<close>

definition StructTextRenderer_init ::
    "(column list \<Rightarrow> error + 't) \<Rightarrow> column list option \<Rightarrow> error + 't struct_renderer" where
  "StructTextRenderer_init TextTable_new columns_arg =
     (case columns_arg of
        None \<Rightarrow> Inr \<lparr> columns = None, table = None \<rparr>
      | Some cols \<Rightarrow>
          (if cols \<noteq> [] then
             (case TextTable_new cols of
                Inl e \<Rightarrow> Inl e
              | Inr t \<Rightarrow> Inr \<lparr> columns = Some cols, table = Some t \<rparr>)
           else Inr \<lparr> columns = Some cols, table = None \<rparr>))"

text \<open>\<^verbatim>\<open>render_repr\<close>: the cell of \<^verbatim>\<open>repr(target)\<close>, a parameter.\<close>

definition StructTextRenderer_render_repr :: "('o \<Rightarrow> ustring) \<Rightarrow> 'o \<Rightarrow> cell" where
  "StructTextRenderer_render_repr repr_of target = Cell (repr_of target)"

text \<open>
  The loop of \<^verbatim>\<open>render_compact\<close>: for each column, \<^verbatim>\<open>column.get("cname")\<close>; a value
  that is not true raises \<^verbatim>\<open>ValueError\<close>; otherwise \<^verbatim>\<open>getattr(target, cname)\<close>, which
  the object model answers (a parameter), is appended.
\<close>

fun column_values ::
    "('o \<Rightarrow> ustring \<Rightarrow> error + 'v) \<Rightarrow> 'o \<Rightarrow> column list \<Rightarrow> error + 'v list" where
  "column_values getattr_target target [] = Inr []"
| "column_values getattr_target target (column # rest) =
     (case map_of column ''cname'' of
        None \<Rightarrow> Inl (ValueError column)
      | Some cname \<Rightarrow>
          (if cname = [] then Inl (ValueError column)
           else
             (case getattr_target target cname of
                Inl e \<Rightarrow> Inl e
              | Inr v \<Rightarrow>
                  (case column_values getattr_target target rest of
                     Inl e \<Rightarrow> Inl e
                   | Inr vs \<Rightarrow> Inr (v # vs)))))"

text \<open>
  \<^verbatim>\<open>render_compact\<close>: without a table, the repr; with one, the values of the columns
  handed to \<^verbatim>\<open>self.table.get_row\<close> (a parameter). Iterating \<^verbatim>\<open>self.columns\<close> when it is
  \<^verbatim>\<open>None\<close> raises \<^verbatim>\<open>TypeError\<close>.
\<close>

definition StructTextRenderer_render_compact ::
    "('o \<Rightarrow> ustring \<Rightarrow> error + 'v) \<Rightarrow> ('t \<Rightarrow> 'v list \<Rightarrow> error + cell) \<Rightarrow> ('o \<Rightarrow> ustring)
      \<Rightarrow> 't struct_renderer \<Rightarrow> 'o \<Rightarrow> error + cell" where
  "StructTextRenderer_render_compact getattr_target get_row repr_of self target =
     (case table self of
        None \<Rightarrow> Inr (StructTextRenderer_render_repr repr_of target)
      | Some t \<Rightarrow>
          (case columns self of
             None \<Rightarrow> Inl TypeError
           | Some cols \<Rightarrow>
               (case column_values getattr_target target cols of
                  Inl e \<Rightarrow> Inl e
                | Inr vs \<Rightarrow> get_row t vs)))"

text \<open>
  Modelled from the spec: \<^verbatim>\<open>text.TextTable\<close> is not under src/. The spec's table is a
  fixed ordered list of columns (name, source-field accessor, width or format hint) used
  to render objects as rows: building it keeps the columns.
\<close>

record text_table =
  table_columns :: "column list"

definition TextTable :: "column list \<Rightarrow> error + text_table" where
  "TextTable cols = Inr \<lparr> table_columns = cols \<rparr>"

section \<open>PointerTextRenderer: the full render\<close>

text \<open>
  What the full render of a pointer uses and that is not under src/: the object model's
  \<^verbatim>\<open>target.deref()\<close> and the comparison \<^verbatim>\<open>target_obj == None\<close>, the registry's
  \<^verbatim>\<open>ObjectRenderer.ForTarget\<close>, and the \<^verbatim>\<open>render_full\<close> functions of the classes that
  a delegate may be, each named by the class and the \<^verbatim>\<open>def\<close> that holds it.
\<close>

record 'v object_model =
  deref :: "'v \<Rightarrow> 'v"
  is_null :: "'v \<Rightarrow> bool"
  ForTarget :: "'v \<Rightarrow> renderer_class"
  other_render_full :: "renderer_class \<Rightarrow> string \<Rightarrow> 'v \<Rightarrow> error + cell"

text \<open>
  \<^verbatim>\<open>cls(session=..., renderer=...).render_full(target)\<close>: the function that the class's
  resolution order binds to \<^verbatim>\<open>render_full\<close>. That of \<^verbatim>\<open>PointerTextRenderer\<close>
  dereferences, answers "-" for a null target and otherwise calls the \<^verbatim>\<open>render_full\<close>
  of the class that the registry gives for the dereferenced object, on that object. A
  chain of pointers that never ends is a render that never returns: the value \<open>None\<close>.
\<close>

partial_function (option) render_full ::
    "'v object_model \<Rightarrow> renderer_class \<Rightarrow> 'v \<Rightarrow> (error + cell) option" where
  "render_full M c target =
     (case getattr_renderer c ''render_full'' of
        None \<Rightarrow> Some (Inl (AttributeError ''render_full''))
      | Some Attribute \<Rightarrow> Some (Inl TypeError)
      | Some (Function d name) \<Rightarrow>
          (if d = PointerTextRenderer \<and> name = ''render_full'' then
             (let target_obj = deref M target in
              if is_null M target_obj then Some (Inr (Cell (ustr ''-'')))
              else render_full M (ForTarget M target_obj) target_obj)
           else Some (other_render_full M d name target)))"

definition PointerTextRenderer_render_full :: "'v object_model \<Rightarrow> 'v \<Rightarrow> (error + cell) option" where
  "PointerTextRenderer_render_full M target = render_full M PointerTextRenderer target"

section \<open>Example values\<close>

definition flags_none_set :: Flags where
  "flags_none_set = \<lparr>Flags_v = 0, maskmap = [(ustr ''PRESENT'', 1), (ustr ''WRITE'', 2)]\<rparr>"

definition flags_many_set :: Flags where
  "flags_many_set = \<lparr>Flags_v = 7, maskmap =
     [(ustr ''PAGE_EXECUTE_READWRITE'', 1), (ustr ''PAGE_GUARD'', 2), (ustr ''PAGE_WRITECOMBINE'', 4)]\<rparr>"

text \<open>
  The scenario of the spec: three entries with reference counts 1, 4, 5 and names "",
  "mod_a", "mod_b", each kobject embedded at offset 0x60 of its module; the module list
  holds mod_a alone.
\<close>

definition scenario_names :: "struct_object \<Rightarrow> ustring" where
  "scenario_names m =
     (if m = Struct_at ''module'' 8192 then ustr ''mod_a''
      else if m = Struct_at ''module'' 12288 then ustr ''mod_b''
      else if m = Struct_at ''module'' 16384 then ustr ''mod_b''
      else [])"

definition scenario_image :: image where
  "scenario_image =
     \<lparr> module_kset =
         [\<lparr> kobj_offset = 4192, kobj_name = [], refcount = 1 \<rparr>,
          \<lparr> kobj_offset = 8288, kobj_name = ustr ''mod_a'', refcount = 4 \<rparr>,
          \<lparr> kobj_offset = 12384, kobj_name = ustr ''mod_b'', refcount = 5 \<rparr>],
       get_module_list = [Struct_at ''module'' 8192],
       name_of_module = scenario_names,
       mkobj_offset = 96 \<rparr>"

text \<open>The same image with a second listed module, at another offset, also named "mod_b".\<close>

definition scenario_name_clash :: image where
  "scenario_name_clash =
     scenario_image \<lparr> get_module_list := [Struct_at ''module'' 8192, Struct_at ''module'' 16384] \<rparr>"

text \<open>The same image with the first entry named: only its reference count keeps it out.\<close>

definition scenario_low_refcount :: image where
  "scenario_low_refcount =
     scenario_image \<lparr> module_kset :=
         [\<lparr> kobj_offset = 4192, kobj_name = ustr ''ghost'', refcount = 1 \<rparr>,
          \<lparr> kobj_offset = 8288, kobj_name = ustr ''mod_a'', refcount = 4 \<rparr>,
          \<lparr> kobj_offset = 12384, kobj_name = ustr ''mod_b'', refcount = 5 \<rparr>] \<rparr>"

text \<open>
  Collaborators over a state that holds the image and a count of the calls answered so
  far: every call changes the state and none changes the image.
\<close>

record counting_state =
  memory :: image
  calls :: nat

definition counted :: "'a \<Rightarrow> counting_state \<Rightarrow> 'a \<times> counting_state" where
  "counted answer w = (answer, w \<lparr> calls := calls w + 1 \<rparr>)"

definition counting_collaborators :: "counting_state collaborators" where
  "counting_collaborators =
     \<lparr> lsmod_get_module_list = (\<lambda>w. counted (get_module_list (memory w)) w),
       list_of_type = (\<lambda>w. counted (module_kset (memory w)) w),
       basic_container_of =
         (\<lambda>kobj type_name member w. counted (container_of (memory w) kobj type_name) w),
       read_name = (\<lambda>m w. counted (name_of_module (memory w) m) w) \<rparr>"

text \<open>
  A struct at offset 0x1000 whose second member cannot be decoded and whose last member,
  a computed value, has no offset.
\<close>

definition example_struct :: Struct where
  "example_struct =
     \<lparr> Struct_offset = 4096,
       Struct_repr = ustr ''[task_struct task_struct] @ 0x1000'',
       members =
         [(ustr ''pid'',
             \<lparr> equals_None = False, obj_offset = Some 4112, repr = ustr '' [int:pid]: 0x00000001'' \<rparr>,
             \<lparr> equals_None = False, obj_offset = Some 4112, repr = ustr '' [int:pid]: 0x00000001'' \<rparr>),
          (ustr ''mm'',
             \<lparr> equals_None = True, obj_offset = None, repr = ustr ''<Invalid pointer>'' \<rparr>,
             \<lparr> equals_None = False, obj_offset = Some 4104, repr = ustr ''<mm_struct Pointer to [0x00000000] (mm)>'' \<rparr>),
          (ustr ''state'',
             \<lparr> equals_None = False, obj_offset = Some 4096, repr = ustr '' [long:state]: 0x00000000'' \<rparr>,
             \<lparr> equals_None = False, obj_offset = Some 4096, repr = ustr '' [long:state]: 0x00000000'' \<rparr>),
          (ustr ''name'',
             \<lparr> equals_None = False, obj_offset = None, repr = ustr ''init'' \<rparr>,
             \<lparr> equals_None = False, obj_offset = None, repr = ustr ''init'' \<rparr>)] \<rparr>"

text \<open>A column specification with a name and a width and no \<^verbatim>\<open>cname\<close>, after one that has it.\<close>

definition pid_column :: column where
  "pid_column = [(''name'', ustr ''PID''), (''cname'', ustr ''pid''), (''width'', ustr ''6'')]"

definition nameless_column :: column where
  "nameless_column = [(''name'', ustr ''Offset''), (''width'', ustr ''14'')]"

text \<open>Two targets with the accessors \<^verbatim>\<open>pid\<close> and \<^verbatim>\<open>comm\<close>, and what reads them.\<close>

definition example_getattr :: "(ustring \<times> ustring) list \<Rightarrow> ustring \<Rightarrow> error + ustring" where
  "example_getattr target name =
     (case map_of target name of None \<Rightarrow> Inl (AttributeError '''') | Some v \<Rightarrow> Inr v)"

definition example_get_row :: "text_table \<Rightarrow> ustring list \<Rightarrow> error + cell" where
  "example_get_row t vs = Inr (Cell (py_join (ustr '' '') vs))"

definition task_one :: "(ustring \<times> ustring) list" where
  "task_one = [(ustr ''pid'', ustr ''1''), (ustr ''comm'', ustr ''init'')]"

definition task_two :: "(ustring \<times> ustring) list" where
  "task_two = [(ustr ''pid'', ustr ''2''), (ustr ''comm'', ustr ''kthreadd'')]"

text \<open>
  A small memory: the pointer at 10 points to the pointer at 20, which points to a
  bit-flags value; the pointer at 30 points to itself; any other pointer is invalid.
\<close>

datatype example_value = Ptr nat | FlagsValue Flags | NullValue

definition example_flags :: Flags where
  "example_flags = \<lparr> Flags_v = 5, maskmap = [(ustr ''W'', 4), (ustr ''R'', 1), (ustr ''X'', 2)] \<rparr>"

definition example_deref :: "example_value \<Rightarrow> example_value" where
  "example_deref p =
     (if p = Ptr 10 then Ptr 20
      else if p = Ptr 20 then FlagsValue example_flags
      else if p = Ptr 30 then Ptr 30
      else NullValue)"

fun example_ForTarget :: "example_value \<Rightarrow> renderer_class" where
  "example_ForTarget (Ptr a) = PointerTextRenderer"
| "example_ForTarget (FlagsValue f) = FlagsTextRenderer"
| "example_ForTarget NullValue = NoneObjectTextRenderer"

fun example_other_render_full :: "renderer_class \<Rightarrow> string \<Rightarrow> example_value \<Rightarrow> error + cell" where
  "example_other_render_full d name (FlagsValue f) =
     (if d = FlagsTextRenderer \<and> name = ''render_full''
      then Inr (FlagsTextRenderer_render_full f) else Inl TypeError)"
| "example_other_render_full d name (Ptr a) = Inl TypeError"
| "example_other_render_full d name NullValue = Inl TypeError"

definition example_model :: "example_value object_model" where
  "example_model =
     \<lparr> deref = example_deref, is_null = (\<lambda>x. x = NullValue),
       ForTarget = example_ForTarget, other_render_full = example_other_render_full \<rparr>"

section \<open>Properties of texts, cells and sorted items\<close>

lemma cut_lines_no_LF: "LF \<notin> set s \<Longrightarrow> cut_lines cur s = (if cur @ s = [] then [] else [cur @ s])"
  by (induction s arbitrary: cur) auto

lemma lines_Cell_no_LF: "LF \<notin> set s \<Longrightarrow> lines (Cell s) = (if s = [] then [] else [s])"
  by (simp add: Cell_def cut_lines_no_LF)

lemma py_split_first:
  "py_split c s = takeWhile (\<lambda>x. x \<noteq> c) s #
     (case dropWhile (\<lambda>x. x \<noteq> c) s of [] \<Rightarrow> [] | _ # r \<Rightarrow> py_split c r)"
  by (induction s) (auto split: list.splits)

lemma sorted_fst: "sorted (xs :: ('a::linorder \<times> 'b::linorder) list) \<Longrightarrow> sorted (map fst xs)"
  by (induction xs) (auto simp: less_eq_prod_def)

lemma append_flags_eq: "append_flags n xs = map fst (filter (\<lambda>(k, m). n AND m \<noteq> 0) xs)"
  by (induction n xs rule: append_flags.induct) auto

lemma distinct_fst_sort:
  fixes xs :: "('a::linorder \<times> 'b::linorder) list"
  assumes "distinct (map fst xs)"
  shows "distinct (map fst (sort xs))"
  using assms by (simp add: distinct_map)

lemma strict_sorted_append_flags:
  assumes "sorted (map fst xs)" and "distinct (map fst xs)"
  shows "sorted_wrt (<) (append_flags n xs)"
proof -
  have "sorted_wrt (<) (map fst xs)" using assms by (simp add: strict_sorted_iff)
  then have "sorted_wrt (\<lambda>a b. fst a < fst b) xs" by (simp add: sorted_wrt_map)
  then have "sorted_wrt (\<lambda>a b. fst a < fst b) (filter (\<lambda>(k, m). n AND m \<noteq> 0) xs)"
    by (rule sorted_wrt_filter)
  then show ?thesis by (simp add: append_flags_eq sorted_wrt_map)
qed

lemma set_append_flags:
  "set (append_flags n xs) = {k. \<exists>m. (k, m) \<in> set xs \<and> n AND m \<noteq> 0}"
  by (induction n xs rule: append_flags.induct) auto

section \<open>Properties of the full render of bit-flags\<close>

text \<open>
  C6. For a bit-flags value (its mask dictionary holding each name once), the full render
  is the cell of the flag names joined with a comma and a space; the names stand in
  strictly increasing order, and a name N is among them exactly when the dictionary maps
  N to a mask m with \<^verbatim>\<open>value & m\<close> not zero. A bit that no name's mask covers adds
  nothing.
\<close>

theorem flags_render_full_names:
  assumes "distinct (map fst (maskmap target))"
  shows "FlagsTextRenderer_render_full target =
           Cell (py_join (ustr '', '') (FlagsTextRenderer_flags target))
       \<and> sorted_wrt (<) (FlagsTextRenderer_flags target)
       \<and> (\<forall>N. N \<in> set (FlagsTextRenderer_flags target) \<longleftrightarrow>
             (\<exists>m. map_of (maskmap target) N = Some m \<and> Flags_v target AND m \<noteq> 0))"
proof -
  have s: "sorted (map fst (sort (maskmap target)))" by (rule sorted_fst) simp
  have d: "distinct (map fst (sort (maskmap target)))" using assms by (rule distinct_fst_sort)
  have "sorted_wrt (<) (FlagsTextRenderer_flags target)"
    unfolding FlagsTextRenderer_flags_def using s d by (rule strict_sorted_append_flags)
  moreover have "N \<in> set (FlagsTextRenderer_flags target) \<longleftrightarrow>
             (\<exists>m. map_of (maskmap target) N = Some m \<and> Flags_v target AND m \<noteq> 0)" for N
    using assms by (simp add: FlagsTextRenderer_flags_def set_append_flags)
  ultimately show ?thesis by (simp add: FlagsTextRenderer_render_full_def)
qed

theorem flags_render_full_names_witness:
  "distinct (map fst (maskmap \<lparr>Flags_v = 5, maskmap = [(ustr ''W'', 4), (ustr ''R'', 1), (ustr ''X'', 2), (ustr ''Z'', 0)]\<rparr>))
   \<and> FlagsTextRenderer_flags \<lparr>Flags_v = 5, maskmap = [(ustr ''W'', 4), (ustr ''R'', 1), (ustr ''X'', 2), (ustr ''Z'', 0)]\<rparr> = [ustr ''R'', ustr ''W'']
   \<and> lines (FlagsTextRenderer_render_full \<lparr>Flags_v = 5, maskmap = [(ustr ''W'', 4), (ustr ''R'', 1), (ustr ''X'', 2), (ustr ''Z'', 0)]\<rparr>) = [ustr ''R, W'']
   \<and> sorted_wrt (<) (FlagsTextRenderer_flags \<lparr>Flags_v = 5, maskmap = [(ustr ''W'', 4), (ustr ''R'', 1), (ustr ''X'', 2), (ustr ''Z'', 0)]\<rparr>)"
  using flags_render_full_names [of "\<lparr>Flags_v = 5, maskmap = [(ustr ''W'', 4), (ustr ''R'', 1), (ustr ''X'', 2), (ustr ''Z'', 0)]\<rparr>"]
  by (simp add: FlagsTextRenderer_flags_def FlagsTextRenderer_render_full_def Cell_def ustr_def LF_def)

section \<open>Properties of the string renderer\<close>

lemma dropWhile_first:
  assumes "c \<in> set s"
  shows "\<exists>rest. s = takeWhile (\<lambda>x. x \<noteq> c) s @ c # rest"
proof -
  have ne: "dropWhile (\<lambda>x. x \<noteq> c) s \<noteq> []"
    using assms by (auto simp: dropWhile_eq_Nil_conv)
  then obtain a rest where r: "dropWhile (\<lambda>x. x \<noteq> c) s = a # rest"
    by (cases "dropWhile (\<lambda>x. x \<noteq> c) s") auto
  have "\<not> (hd (dropWhile (\<lambda>x. x \<noteq> c) s) \<noteq> c)" using ne by (rule hd_dropWhile)
  with r have "a = c" by simp
  with r have "takeWhile (\<lambda>x. x \<noteq> c) s @ c # rest = s"
    using takeWhile_dropWhile_id [of "\<lambda>x. x \<noteq> c" s] by simp
  then show ?thesis by metis
qed

text \<open>
  C8. For a string whose text holds a NUL, the full render is the cell of the text before
  the first NUL: the text is that prefix, a NUL and a rest, the prefix holds no NUL, and
  the rest is dropped. The value and compact renders are the same function as the full
  render, so they give the same cell.
\<close>

theorem string_render_full_nul:
  assumes "NUL \<in> set (SmartUnicode target)"
  shows "StringTextRenderer_render_full SmartUnicode target =
           Inr (Cell (takeWhile (\<lambda>x. x \<noteq> NUL) (SmartUnicode target)))
       \<and> (\<exists>rest. SmartUnicode target = takeWhile (\<lambda>x. x \<noteq> NUL) (SmartUnicode target) @ NUL # rest)
       \<and> NUL \<notin> set (takeWhile (\<lambda>x. x \<noteq> NUL) (SmartUnicode target))
       \<and> StringTextRenderer_render_value SmartUnicode target =
           StringTextRenderer_render_full SmartUnicode target
       \<and> StringTextRenderer_render_compact SmartUnicode target =
           StringTextRenderer_render_full SmartUnicode target
       \<and> getattr_renderer StringTextRenderer ''render_value'' =
           Some (Function StringTextRenderer ''render_full'')
       \<and> getattr_renderer StringTextRenderer ''render_compact'' =
           Some (Function StringTextRenderer ''render_full'')
       \<and> getattr_renderer StringTextRenderer ''render_full'' =
           Some (Function StringTextRenderer ''render_full'')"
proof -
  have f: "StringTextRenderer_render_full SmartUnicode target =
      Inr (Cell (takeWhile (\<lambda>x. x \<noteq> NUL) (SmartUnicode target)))"
    by (subst StringTextRenderer_render_full_def, subst py_split_first) (simp add: py_or_def)
  have d: "\<exists>rest. SmartUnicode target = takeWhile (\<lambda>x. x \<noteq> NUL) (SmartUnicode target) @ NUL # rest"
    using assms by (rule dropWhile_first)
  have n: "NUL \<notin> set (takeWhile (\<lambda>x. x \<noteq> NUL) (SmartUnicode target))"
    by (auto dest: set_takeWhileD)
  have g: "getattr_renderer StringTextRenderer ''render_value'' = Some (Function StringTextRenderer ''render_full'')"
     "getattr_renderer StringTextRenderer ''render_compact'' = Some (Function StringTextRenderer ''render_full'')"
     "getattr_renderer StringTextRenderer ''render_full'' = Some (Function StringTextRenderer ''render_full'')"
    by (simp_all add: getattr_renderer_def mro_def TextObjectRenderer_body_def eval_nat_numeral)
  show ?thesis
    using f d n g
    by (simp add: StringTextRenderer_render_value_def StringTextRenderer_render_compact_def)
qed

theorem string_render_full_nul_witness:
  "NUL \<in> set (ustr ''abc'' @ NUL # ustr ''def'' @ [NUL])
   \<and> StringTextRenderer_render_full (\<lambda>t. t) (ustr ''abc'' @ NUL # ustr ''def'' @ [NUL]) = Inr (Cell (ustr ''abc''))
   \<and> StringTextRenderer_render_value (\<lambda>t. t) (ustr ''abc'' @ NUL # ustr ''def'' @ [NUL]) = Inr (Cell (ustr ''abc''))
   \<and> StringTextRenderer_render_compact (\<lambda>t. t) (ustr ''abc'' @ NUL # ustr ''def'' @ [NUL]) = Inr (Cell (ustr ''abc''))"
proof -
  have h: "NUL \<in> set ((\<lambda>t. t) (ustr ''abc'' @ NUL # ustr ''def'' @ [NUL]))" by simp
  have t: "takeWhile (\<lambda>x. x \<noteq> NUL) (ustr ''abc'' @ NUL # ustr ''def'' @ [NUL]) = ustr ''abc''"
    by (simp add: ustr_def NUL_def)
  show ?thesis
    using h string_render_full_nul [of "\<lambda>t. t", OF h] unfolding t by simp
qed

section \<open>Properties of the compact and value renders of bit-flags\<close>

text \<open>
  C7, as the code has it. Let s be the full-render text of a bit-flags value, with no line
  feed in it. When s is longer than 40 characters, the compact render is the first 39
  characters of s followed by one ellipsis character; when s has between 1 and 40
  characters, the compact render is the full render; when s is empty (no named flag is
  set), the full render has no line and the compact render is the placeholder "-".
\<close>

theorem flags_render_compact_elided:
  assumes "LF \<notin> set (py_join (ustr '', '') (FlagsTextRenderer_flags target))"
  shows "(py_join (ustr '', '') (FlagsTextRenderer_flags target) = [] \<longrightarrow>
            FlagsTextRenderer_render_compact target = Cell (ustr ''-''))
       \<and> (py_join (ustr '', '') (FlagsTextRenderer_flags target) \<noteq> []
            \<and> length (py_join (ustr '', '') (FlagsTextRenderer_flags target)) \<le> 40 \<longrightarrow>
            FlagsTextRenderer_render_compact target = FlagsTextRenderer_render_full target)
       \<and> (length (py_join (ustr '', '') (FlagsTextRenderer_flags target)) > 40 \<longrightarrow>
            FlagsTextRenderer_render_compact target =
              Cell (take 39 (py_join (ustr '', '') (FlagsTextRenderer_flags target)) @ [ELLIPSIS])
            \<and> lines (FlagsTextRenderer_render_compact target) =
              [take 39 (py_join (ustr '', '') (FlagsTextRenderer_flags target)) @ [ELLIPSIS]])"
proof -
  let ?s = "py_join (ustr '', '') (FlagsTextRenderer_flags target)"
  have l: "lines (FlagsTextRenderer_render_full target) = (if ?s = [] then [] else [?s])"
    using assms by (simp add: FlagsTextRenderer_render_full_def lines_Cell_no_LF)
  have "LF \<notin> set (take 39 ?s @ [ELLIPSIS])"
    using assms by (auto simp: LF_def ELLIPSIS_def dest: in_set_takeD)
  then have e: "lines (Cell (take 39 ?s @ [ELLIPSIS])) = [take 39 ?s @ [ELLIPSIS]]"
    by (simp add: lines_Cell_no_LF)
  show ?thesis
    using l e by (auto simp: FlagsTextRenderer_render_compact_def FlagsTextRenderer_render_full_def)
qed

theorem flags_render_compact_elided_witness:
  "LF \<notin> set (py_join (ustr '', '') (FlagsTextRenderer_flags flags_many_set))
   \<and> length (py_join (ustr '', '') (FlagsTextRenderer_flags flags_many_set)) = 53
   \<and> lines (FlagsTextRenderer_render_compact flags_many_set) =
       [ustr ''PAGE_EXECUTE_READWRITE, PAGE_GUARD, PAG'' @ [ELLIPSIS]]"
proof -
  have j: "py_join (ustr '', '') (FlagsTextRenderer_flags flags_many_set) =
        ustr ''PAGE_EXECUTE_READWRITE, PAGE_GUARD, PAGE_WRITECOMBINE''"
    by (simp add: flags_many_set_def FlagsTextRenderer_flags_def ustr_def)
  have h: "LF \<notin> set (py_join (ustr '', '') (FlagsTextRenderer_flags flags_many_set))"
    unfolding j by (simp add: ustr_def LF_def)
  show ?thesis
    using h flags_render_compact_elided [OF h] unfolding j
    by (simp add: ustr_def LF_def ELLIPSIS_def Cell_def)
qed

text \<open>
  The specification also says that a full-render text of 40 characters or fewer comes
  back unchanged. With no named flag set the text is empty, and the guard
  \<^verbatim>\<open>if not lines\<close> answers "-" instead.
\<close>

theorem flags_render_compact_counterexample:
  "length (py_join (ustr '', '') (FlagsTextRenderer_flags flags_none_set)) \<le> 40
   \<and> FlagsTextRenderer_render_full flags_none_set = Cell []
   \<and> lines (FlagsTextRenderer_render_full flags_none_set) = []
   \<and> FlagsTextRenderer_render_compact flags_none_set = Cell (ustr ''-'')
   \<and> lines (FlagsTextRenderer_render_compact flags_none_set) = [ustr ''-'']
   \<and> FlagsTextRenderer_render_compact flags_none_set \<noteq> FlagsTextRenderer_render_full flags_none_set"
  by (simp add: flags_none_set_def FlagsTextRenderer_render_compact_def
      FlagsTextRenderer_render_full_def FlagsTextRenderer_flags_def Cell_def ustr_def LF_def)

text \<open>
  C10. \<^verbatim>\<open>FlagsTextRenderer.render_value\<close> looks \<^verbatim>\<open>v\<close> up on the renderer object, where
  no class of the renderer's resolution order binds it: for every target, and whatever a
  call of a bound name would have given, the result is the attribute error, never a cell.
\<close>

theorem flags_render_value_raises:
  "FlagsTextRenderer_render_value unicode_call target = Inl (AttributeError ''v'')
   \<and> getattr_renderer FlagsTextRenderer ''v'' = None"
  by (simp add: FlagsTextRenderer_render_value_def getattr_renderer_def mro_def TextObjectRenderer_body_def eval_nat_numeral)

theorem flags_render_value_raises_witness:
  "FlagsTextRenderer_render_value (\<lambda>b. Inr (ustr ''5'')) \<lparr>Flags_v = 5, maskmap = [(ustr ''R'', 1), (ustr ''W'', 4)]\<rparr>
     = Inl (AttributeError ''v'')"
  using flags_render_value_raises [of "\<lambda>b. Inr (ustr ''5'')" "\<lparr>Flags_v = 5, maskmap = [(ustr ''R'', 1), (ustr ''W'', 4)]\<rparr>"]
  by simp

section \<open>Properties of the null-sentinel renderers\<close>

lemma getattr_render_row_None:
  "getattr_renderer NoneObjectTextRenderer ''render_row'' =
     Some (Function NoneObjectTextRenderer ''render_row'')"
  "getattr_renderer NoneTextRenderer ''render_row'' =
     Some (Function NoneObjectTextRenderer ''render_row'')"
  by (simp_all add: getattr_renderer_def mro_def TextObjectRenderer_body_def eval_nat_numeral)

text \<open>
  C1. A render through the renderer of the null sentinel, \<^verbatim>\<open>NoneObjectTextRenderer\<close> for
  NoneObject or \<^verbatim>\<open>NoneTextRenderer\<close> for NoneType, gives the cell of the one line "-" at
  every verbosity (full, compact and value among them), whatever the target and its type,
  and whatever the functions of the other classes do.
\<close>

theorem none_renders_placeholder:
  assumes "c = NoneObjectTextRenderer \<or> c = NoneTextRenderer"
  shows "render_row other_render_row c target style_option = Inr (Cell (ustr ''-''))
       \<and> lines (Cell (ustr ''-'')) = [ustr ''-'']"
proof -
  have "getattr_renderer c ''render_row'' = Some (Function NoneObjectTextRenderer ''render_row'')"
    using assms getattr_render_row_None by auto
  then have "render_row other_render_row c target style_option = Inr (Cell (ustr ''-''))"
    by (simp add: render_row_def NoneObjectTextRenderer_render_row_def)
  moreover have "lines (Cell (ustr ''-'')) = [ustr ''-'']"
    by (simp add: Cell_def ustr_def LF_def)
  ultimately show ?thesis by simp
qed

theorem none_renders_placeholder_witness:
  "render_row (\<lambda>d n t s. Inl TypeError) NoneTextRenderer (Struct_at ''task_struct'' 0) (Some full)
     = Inr (Cell (ustr ''-''))
   \<and> render_row (\<lambda>d n t s. Inl TypeError) NoneObjectTextRenderer (7 :: int) (Some compact)
     = Inr (Cell (ustr ''-''))
   \<and> render_row (\<lambda>d n t s. Inl TypeError) NoneObjectTextRenderer (ustr ''x'') (Some value_style)
     = Inr (Cell (ustr ''-''))"
  using none_renders_placeholder [of NoneTextRenderer "\<lambda>d n t s. Inl TypeError" "Struct_at ''task_struct'' 0" "Some full"]
    none_renders_placeholder [of NoneObjectTextRenderer "\<lambda>d n t s. Inl TypeError" "7 :: int" "Some compact"]
    none_renders_placeholder [of NoneObjectTextRenderer "\<lambda>d n t s. Inl TypeError" "ustr ''x''" "Some value_style"]
  by simp

section \<open>Properties of the kernel-module reconciliation\<close>

lemma render_loop_append:
  "render_loop img modules kobjs renderer = renderer @ render_loop img modules kobjs []"
proof (induction kobjs arbitrary: renderer)
  case Nil
  show ?case by simp
next
  case (Cons kobj rest)
  show ?case
  proof (cases "refcount kobj < 3")
    case True
    then show ?thesis using Cons.IH [of renderer] by simp
  next
    case False
    let ?row = "table_row (container_of img kobj ''module'')
        (name_of_module img (container_of img kobj ''module'')) (refcount kobj)
        (container_of img kobj ''module'' \<in> modules)"
    have "render_loop img modules (kobj # rest) renderer
        = render_loop img modules rest (renderer @ [?row])"
      using False by (simp add: Let_def)
    also have "\<dots> = (renderer @ [?row]) @ render_loop img modules rest []"
      by (rule Cons.IH)
    also have "\<dots> = renderer @ render_loop img modules rest [?row]"
      using Cons.IH [of "[?row]"] by simp
    also have "render_loop img modules rest [?row] = render_loop img modules (kobj # rest) []"
      using False by (simp add: Let_def)
    finally show ?thesis .
  qed
qed

lemma render_append: "render img renderer = renderer @ render img []"
  unfolding render_def Let_def
  by (subst render_loop_append, subst (2) render_loop_append) simp

text \<open>
  C4. On the scenario (reference counts 1, 4, 5, names "", "mod_a", "mod_b", module list
  of mod_a alone) the entry with the empty name is not yielded, the surviving entries
  have at least 3 references, and the report is the header and exactly two rows: mod_a
  with known true, mod_b with known false. The known flag is membership of the container
  object: with another listed module that is also named "mod_b", at another offset, the
  row of mod_b still says false. With the first entry named, it is yielded and then
  skipped for its reference count of 1, and the report is the same.
\<close>

theorem check_modules_scenario:
  "get_kset_modules scenario_image =
     [\<lparr> kobj_offset = 8288, kobj_name = ustr ''mod_a'', refcount = 4 \<rparr>,
      \<lparr> kobj_offset = 12384, kobj_name = ustr ''mod_b'', refcount = 5 \<rparr>]
   \<and> render scenario_image [] =
     [table_header check_modules_header,
      table_row (Struct_at ''module'' 8192) (ustr ''mod_a'') 4 True,
      table_row (Struct_at ''module'' 12288) (ustr ''mod_b'') 5 False]
   \<and> render scenario_name_clash [] = render scenario_image []
   \<and> length (get_kset_modules scenario_low_refcount) = 3
   \<and> render scenario_low_refcount [] = render scenario_image []"
  by (simp add: render_def get_kset_modules_def scenario_image_def scenario_name_clash_def
      scenario_low_refcount_def scenario_names_def container_of_def name_is_true_def ustr_def)

theorem check_modules_scenario_witness:
  "length (render scenario_image []) = 3"
  using check_modules_scenario by simp

lemma run_render_loop_refines:
  assumes "read_only_views C image_of"
  shows "snd (run_render_loop C modules kobjs (w, renderer))
           = render_loop (image_of w) modules kobjs renderer
       \<and> image_of (fst (run_render_loop C modules kobjs (w, renderer))) = image_of w"
proof (induction kobjs arbitrary: w renderer)
  case Nil
  show ?case by simp
next
  case (Cons kobj rest)
  show ?case
  proof (cases "refcount kobj < 3")
    case True
    then show ?thesis using Cons.IH [of w renderer] by simp
  next
    case False
    obtain container_module w1 where c: "basic_container_of C kobj ''module'' ''mkobj'' w = (container_module, w1)"
      by (cases "basic_container_of C kobj ''module'' ''mkobj'' w")
    obtain name w2 where n: "read_name C container_module w1 = (name, w2)"
      by (cases "read_name C container_module w1")
    have c1: "container_module = container_of (image_of w) kobj ''module''" and i1: "image_of w1 = image_of w"
      using assms c unfolding read_only_views_def by (metis fst_conv, metis snd_conv)
    have n1: "name = name_of_module (image_of w1) container_module" and i2: "image_of w2 = image_of w1"
      using assms n unfolding read_only_views_def by (metis fst_conv, metis snd_conv)
    let ?row = "table_row container_module name (refcount kobj) (container_module \<in> modules)"
    have step: "run_render_loop C modules (kobj # rest) (w, renderer)
        = run_render_loop C modules rest (w2, renderer @ [?row])"
      using False c n by (simp add: Let_def)
    have pure: "render_loop (image_of w) modules (kobj # rest) renderer
        = render_loop (image_of w) modules rest (renderer @ [?row])"
      using False c1 n1 i1 by (simp add: Let_def)
    show ?thesis
      unfolding step pure using Cons.IH [of w2 "renderer @ [?row]"] i1 i2 by simp
  qed
qed

lemma run_render_refines:
  assumes "read_only_views C image_of"
  shows "snd (run_render C (w, renderer)) = render (image_of w) renderer
       \<and> image_of (fst (run_render C (w, renderer))) = image_of w"
proof -
  obtain module_list w1 where l: "lsmod_get_module_list C w = (module_list, w1)"
    by (cases "lsmod_get_module_list C w")
  obtain entries w2 where k: "list_of_type C w1 = (entries, w2)"
    by (cases "list_of_type C w1")
  have l1: "module_list = get_module_list (image_of w)" and i1: "image_of w1 = image_of w"
    using assms l unfolding read_only_views_def by (metis fst_conv, metis snd_conv)
  have k1: "entries = module_kset (image_of w1)" and i2: "image_of w2 = image_of w1"
    using assms k unfolding read_only_views_def by (metis fst_conv, metis snd_conv)
  have r: "run_render C (w, renderer)
      = run_render_loop C (set module_list) (kset_named entries)
          (w2, renderer @ [table_header check_modules_header])"
    using l k by (simp add: run_render_def run_get_kset_modules_def Let_def)
  show ?thesis
    unfolding r
    using run_render_loop_refines [OF assms, of "set module_list" "kset_named entries" w2
        "renderer @ [table_header check_modules_header]"] l1 k1 i1 i2
    by (simp add: render_def get_kset_modules_def Let_def)
qed

lemma render_loop_rows:
  "render_loop img modules kobjs [] =
     map (\<lambda>kobj. table_row (container_of img kobj ''module'')
            (name_of_module img (container_of img kobj ''module'')) (refcount kobj)
            (container_of img kobj ''module'' \<in> modules))
       (filter (\<lambda>kobj. 3 \<le> refcount kobj) kobjs)"
proof (induction kobjs)
  case Nil
  show ?case by simp
next
  case (Cons kobj rest)
  show ?case
  proof (cases "refcount kobj < 3")
    case True
    then show ?thesis using Cons.IH by simp
  next
    case False
    then show ?thesis
      using Cons.IH render_loop_append [of img modules rest "[table_row (container_of img kobj ''module'')
            (name_of_module img (container_of img kobj ''module'')) (refcount kobj)
            (container_of img kobj ''module'' \<in> modules)]"]
      by (simp add: Let_def)
  qed
qed

lemma kset_named_filter: "kset_named kobjs = filter (\<lambda>kobj. kobj_name kobj \<noteq> []) kobjs"
  by (induction kobjs) (simp_all add: name_is_true_def)

lemma render_is_spec_Report:
  "render img [] = table_header check_modules_header # spec_Report img"
proof -
  have "render img [] = [table_header check_modules_header]
      @ render_loop img (set (get_module_list img)) (get_kset_modules img) []"
    unfolding render_def Let_def by (subst render_loop_append) simp
  also have "render_loop img (set (get_module_list img)) (get_kset_modules img) [] = spec_Report img"
    by (simp add: render_loop_rows get_kset_modules_def kset_named_filter spec_Report_def
        spec_Reconcile_def spec_TraverseStructural_def spec_TraverseIndependent_def
        comp_def conj_commute)
  finally show ?thesis by simp
qed

text \<open>
  C9. Let the collaborators of the plugin (session, lsmod, profile, address space) be
  read-only views of the memory image, keeping whatever state of their own. A run of the
  reconciliation from any state of theirs writes the header and the rows of the spec's
  TraverseStructural, TraverseIndependent, Reconcile and Report on the image, and leaves
  the image as it was; a second run, from the state that the first run left, writes the
  same sequence of rows. Nothing that a run leaves behind reaches the next one.
\<close>

theorem check_modules_runs_agree:
  assumes "read_only_views C image_of"
  shows "snd (run_render C (w, [])) = table_header check_modules_header # spec_Report (image_of w)
       \<and> snd (run_render C (fst (run_render C (w, [])), [])) = snd (run_render C (w, []))
       \<and> image_of (fst (run_render C (w, []))) = image_of w
       \<and> snd (run_render C (w, renderer)) = renderer @ snd (run_render C (w, []))"
proof -
  let ?w1 = "fst (run_render C (w, []))"
  have one: "snd (run_render C (w, [])) = render (image_of w) []"
    and img: "image_of ?w1 = image_of w"
    using run_render_refines [OF assms, of w "[]"] by simp_all
  have two: "snd (run_render C (?w1, [])) = render (image_of ?w1) []"
    using run_render_refines [OF assms, of ?w1 "[]"] by simp
  have app: "snd (run_render C (w, renderer)) = renderer @ render (image_of w) []"
    using run_render_refines [OF assms, of w renderer] render_append [of "image_of w" renderer]
    by simp
  show ?thesis
    using one two img app by (simp add: render_is_spec_Report)
qed

lemma counting_read_only: "read_only_views counting_collaborators memory"
  by (simp add: read_only_views_def counting_collaborators_def counted_def)

theorem check_modules_runs_agree_witness:
  "read_only_views counting_collaborators memory
   \<and> snd (run_render counting_collaborators (\<lparr> memory = scenario_image, calls = 0 \<rparr>, [])) =
       [table_header check_modules_header,
        table_row (Struct_at ''module'' 8192) (ustr ''mod_a'') 4 True,
        table_row (Struct_at ''module'' 12288) (ustr ''mod_b'') 5 False]
   \<and> fst (run_render counting_collaborators (\<lparr> memory = scenario_image, calls = 0 \<rparr>, [])) =
       \<lparr> memory = scenario_image, calls = 6 \<rparr>
   \<and> snd (run_render counting_collaborators (\<lparr> memory = scenario_image, calls = 6 \<rparr>, [])) =
       snd (run_render counting_collaborators (\<lparr> memory = scenario_image, calls = 0 \<rparr>, []))
   \<and> fst (run_render counting_collaborators (\<lparr> memory = scenario_image, calls = 6 \<rparr>, [])) =
       \<lparr> memory = scenario_image, calls = 12 \<rparr>"
proof -
  have s: "fst (run_render counting_collaborators (\<lparr> memory = scenario_image, calls = n \<rparr>, [])) =
       \<lparr> memory = scenario_image, calls = n + 6 \<rparr>" for n
    by (simp add: run_render_def run_get_kset_modules_def counting_collaborators_def counted_def
        scenario_image_def name_is_true_def ustr_def)
  have r: "table_header check_modules_header # spec_Report scenario_image =
       [table_header check_modules_header,
        table_row (Struct_at ''module'' 8192) (ustr ''mod_a'') 4 True,
        table_row (Struct_at ''module'' 12288) (ustr ''mod_b'') 5 False]"
    by (simp add: spec_Report_def spec_Reconcile_def spec_TraverseStructural_def
        spec_TraverseIndependent_def scenario_image_def scenario_names_def container_of_def ustr_def)
  show ?thesis
    using counting_read_only
      check_modules_runs_agree [OF counting_read_only, of "\<lparr> memory = scenario_image, calls = 0 \<rparr>" "[]"]
      s [of 0] s [of 6] r
    by simp
qed

section \<open>Properties of the full render of a struct\<close>

lemma members_loop_eq:
  "members_loop off ms w fs =
     (fold (\<lambda>m w. max w (length (fst m))) ms w, fs @ map (member_field off) ms)"
  by (induction ms arbitrary: w fs) auto

lemma fields_eq:
  "StructTextRenderer_fields target =
     sort (map (member_field (Struct_offset target)) (members target))"
  by (simp add: StructTextRenderer_fields_def members_loop_eq)

lemma sorted_fst_field: "sorted (fs :: field list) \<Longrightarrow> sorted (map fst fs)"
  by (rule sorted_fst)

text \<open>
  C5. For every struct, the list of fields of the full render is in non-decreasing order
  of the member's offset minus the struct's offset (zero for a value that carries no
  offset); it holds one tuple for each member,
  no more and no fewer; a member whose value equals \<^verbatim>\<open>None\<close> is there with the offset
  and the representation of its undecoded form \<^verbatim>\<open>target.m(k)\<close>; and the render is the
  cell of the struct's representation followed by one line for each field. The render
  returns a cell: nothing is raised.
\<close>

theorem struct_render_full_members:
  "sorted (map fst (StructTextRenderer_fields target))
   \<and> mset (StructTextRenderer_fields target) =
       mset (map (member_field (Struct_offset target)) (members target))
   \<and> length (StructTextRenderer_fields target) = length (members target)
   \<and> (\<forall>k attr raw. (k, attr, raw) \<in> set (members target) \<and> equals_None attr \<longrightarrow>
         ((case obj_offset raw of Some off \<Rightarrow> off | None \<Rightarrow> Struct_offset target)
            - Struct_offset target, k, repr raw) \<in> set (StructTextRenderer_fields target))
   \<and> (\<forall>k attr raw. (k, attr, raw) \<in> set (members target) \<and> \<not> equals_None attr \<longrightarrow>
         ((case obj_offset attr of Some off \<Rightarrow> off | None \<Rightarrow> Struct_offset target)
            - Struct_offset target, k, repr attr) \<in> set (StructTextRenderer_fields target))
   \<and> StructTextRenderer_render_full target =
       Cell (Struct_repr target @ [LF]
             @ py_join [LF] (map (format_field (StructTextRenderer_width_name target))
                              (StructTextRenderer_fields target))
             @ [LF])"
proof -
  let ?fs = "StructTextRenderer_fields target"
  have s: "sorted (map fst ?fs)"
    unfolding fields_eq by (rule sorted_fst_field) simp
  have m: "mset ?fs = mset (map (member_field (Struct_offset target)) (members target))"
    by (simp add: fields_eq)
  have l: "length ?fs = length (members target)"
    by (simp add: fields_eq)
  have n: "((case obj_offset raw of Some off \<Rightarrow> off | None \<Rightarrow> Struct_offset target)
            - Struct_offset target, k, repr raw) \<in> set ?fs"
    if "(k, attr, raw) \<in> set (members target)" and "equals_None attr" for k attr raw
  proof -
    have "member_field (Struct_offset target) (k, attr, raw) \<in> set ?fs"
      using that(1) by (simp add: fields_eq)
    then show ?thesis using that(2) by (simp add: member_field_def)
  qed
  have d: "((case obj_offset attr of Some off \<Rightarrow> off | None \<Rightarrow> Struct_offset target)
            - Struct_offset target, k, repr attr) \<in> set ?fs"
    if "(k, attr, raw) \<in> set (members target)" and "\<not> equals_None attr" for k attr raw
  proof -
    have "member_field (Struct_offset target) (k, attr, raw) \<in> set ?fs"
      using that(1) by (simp add: fields_eq)
    then show ?thesis using that(2) by (simp add: member_field_def)
  qed
  show ?thesis
    unfolding StructTextRenderer_render_full_def using s m l n d by blast
qed

lemma example_struct_fields:
  "StructTextRenderer_fields example_struct =
     [(0, ustr ''name'', ustr ''init''),
      (0, ustr ''state'', ustr '' [long:state]: 0x00000000''),
      (8, ustr ''mm'', ustr ''<mm_struct Pointer to [0x00000000] (mm)>''),
      (16, ustr ''pid'', ustr '' [int:pid]: 0x00000001'')]"
  by (simp add: StructTextRenderer_fields_def example_struct_def member_field_def ustr_def)

theorem struct_render_full_members_witness:
  "(ustr ''mm'', \<lparr> equals_None = True, obj_offset = None, repr = ustr ''<Invalid pointer>'' \<rparr>,
      \<lparr> equals_None = False, obj_offset = Some 4104, repr = ustr ''<mm_struct Pointer to [0x00000000] (mm)>'' \<rparr>)
     \<in> set (members example_struct)
   \<and> (8, ustr ''mm'', ustr ''<mm_struct Pointer to [0x00000000] (mm)>'')
     \<in> set (StructTextRenderer_fields example_struct)
   \<and> map fst (StructTextRenderer_fields example_struct) = [0, 0, 8, 16]
   \<and> sorted (map fst (StructTextRenderer_fields example_struct))
   \<and> length (StructTextRenderer_fields example_struct) = 4
   \<and> lines (StructTextRenderer_render_full example_struct) =
       [ustr ''[task_struct task_struct] @ 0x1000'',
        ustr ''  0x00 name  init'',
        ustr ''  0x00 state  [long:state]: 0x00000000'',
        ustr ''  0x08 mm    <mm_struct Pointer to [0x00000000] (mm)>'',
        ustr ''  0x10 pid    [int:pid]: 0x00000001'']"
proof -
  have w: "StructTextRenderer_width_name example_struct = 5"
    by (simp add: StructTextRenderer_width_name_def example_struct_def ustr_def)
  have h: "hex_digits 0 = [48]" "hex_digits 8 = [56]" "hex_digits 16 = [49, 48]"
    by (simp_all add: hex_digits.simps hex_digit_def)
  have p: "replicate 2 (32::nat) = [32, 32]" "replicate 3 (32::nat) = [32, 32, 32]"
    by (simp_all add: numeral_2_eq_2 numeral_3_eq_3)
  have r: "lines (StructTextRenderer_render_full example_struct) =
       [ustr ''[task_struct task_struct] @ 0x1000'',
        ustr ''  0x00 name  init'',
        ustr ''  0x00 state  [long:state]: 0x00000000'',
        ustr ''  0x08 mm    <mm_struct Pointer to [0x00000000] (mm)>'',
        ustr ''  0x10 pid    [int:pid]: 0x00000001'']"
    unfolding StructTextRenderer_render_full_def example_struct_fields w
    by (simp add: format_field_def format_02X_def h p Cell_def LF_def ustr_def example_struct_def)
  have i: "(ustr ''mm'', \<lparr> equals_None = True, obj_offset = None, repr = ustr ''<Invalid pointer>'' \<rparr>,
      \<lparr> equals_None = False, obj_offset = Some 4104, repr = ustr ''<mm_struct Pointer to [0x00000000] (mm)>'' \<rparr>)
     \<in> set (members example_struct)"
    by (simp add: example_struct_def)
  show ?thesis
    using struct_render_full_members [of example_struct] i r
    by (simp add: example_struct_fields)
qed

section \<open>Properties of the construction and the compact render of a struct renderer\<close>

lemma column_values_append:
  "column_values g target (pre @ post) =
     (case column_values g target pre of
        Inl e \<Rightarrow> Inl e
      | Inr vs \<Rightarrow> (case column_values g target post of Inl e \<Rightarrow> Inl e | Inr ws \<Rightarrow> Inr (vs @ ws)))"
  by (induction pre) (auto split: option.splits sum.splits)

text \<open>
  C2, as the code has it. The constructor of a struct renderer checks nothing in the
  column specification: whenever the table's constructor accepts the columns, the
  renderer is built with them as given. A column entry without a \<^verbatim>\<open>cname\<close> is reported
  by the compact render: every call that reaches the entry (the entries before it having
  given their values) raises \<^verbatim>\<open>ValueError\<close> for that column, whatever the target; an
  error of an accessor lookup comes out of the compact render too. With no table, the
  compact render is the repr cell and raises nothing.
\<close>

theorem struct_columns_checked_when_rendering:
  "(TextTable_new cols = Inr t \<and> cols \<noteq> [] \<longrightarrow>
      StructTextRenderer_init TextTable_new (Some cols) = Inr \<lparr> columns = Some cols, table = Some t \<rparr>)
   \<and> (table self = Some t \<and> columns self = Some (pre @ column # post)
        \<and> (map_of column ''cname'' = None \<or> map_of column ''cname'' = Some [])
        \<and> column_values getattr_target target pre = Inr vs \<longrightarrow>
      StructTextRenderer_render_compact getattr_target get_row repr_of self target =
        Inl (ValueError column))
   \<and> (table self = Some t \<and> columns self = Some (pre @ column # post)
        \<and> map_of column ''cname'' = Some cname \<and> cname \<noteq> []
        \<and> getattr_target target cname = Inl e
        \<and> column_values getattr_target target pre = Inr vs \<longrightarrow>
      StructTextRenderer_render_compact getattr_target get_row repr_of self target = Inl e)
   \<and> (table self = None \<longrightarrow>
      StructTextRenderer_render_compact getattr_target get_row repr_of self target =
        Inr (Cell (repr_of target)))"
proof -
  have a: "StructTextRenderer_init TextTable_new (Some cols) = Inr \<lparr> columns = Some cols, table = Some t \<rparr>"
    if "TextTable_new cols = Inr t" and "cols \<noteq> []"
    using that by (simp add: StructTextRenderer_init_def)
  have b: "StructTextRenderer_render_compact getattr_target get_row repr_of self target =
        Inl (ValueError column)"
    if "table self = Some t" and "columns self = Some (pre @ column # post)"
      and "map_of column ''cname'' = None \<or> map_of column ''cname'' = Some []"
      and "column_values getattr_target target pre = Inr vs"
  proof -
    have "column_values getattr_target target (column # post) = Inl (ValueError column)"
      using that(3) by auto
    then have "column_values getattr_target target (pre @ column # post) = Inl (ValueError column)"
      using that(4) by (simp add: column_values_append)
    then show ?thesis
      using that(1,2) by (simp add: StructTextRenderer_render_compact_def)
  qed
  have c: "StructTextRenderer_render_compact getattr_target get_row repr_of self target = Inl e"
    if "table self = Some t" and "columns self = Some (pre @ column # post)"
      and "map_of column ''cname'' = Some cname" and "cname \<noteq> []"
      and "getattr_target target cname = Inl e"
      and "column_values getattr_target target pre = Inr vs"
  proof -
    have "column_values getattr_target target (column # post) = Inl e"
      using that(3,4,5) by simp
    then have "column_values getattr_target target (pre @ column # post) = Inl e"
      using that(6) by (simp add: column_values_append)
    then show ?thesis
      using that(1,2) by (simp add: StructTextRenderer_render_compact_def)
  qed
  have d: "StructTextRenderer_render_compact getattr_target get_row repr_of self target =
        Inr (Cell (repr_of target))"
    if "table self = None"
    using that by (simp add: StructTextRenderer_render_compact_def StructTextRenderer_render_repr_def)
  show ?thesis using a b c d by blast
qed

text \<open>
  The specification puts the error at construction and says that no compact render
  raises a configuration error. Built from a specification whose second column has no
  \<^verbatim>\<open>cname\<close>, the renderer is constructed without error, and the compact render of each
  of two targets raises the \<^verbatim>\<open>ValueError\<close> of that column.
\<close>

theorem struct_columns_counterexample:
  "StructTextRenderer_init TextTable (Some [pid_column, nameless_column]) =
     Inr \<lparr> columns = Some [pid_column, nameless_column],
           table = Some \<lparr> table_columns = [pid_column, nameless_column] \<rparr> \<rparr>
   \<and> StructTextRenderer_render_compact example_getattr example_get_row (\<lambda>target. [])
       \<lparr> columns = Some [pid_column, nameless_column],
         table = Some \<lparr> table_columns = [pid_column, nameless_column] \<rparr> \<rparr> task_one
     = Inl (ValueError nameless_column)
   \<and> StructTextRenderer_render_compact example_getattr example_get_row (\<lambda>target. [])
       \<lparr> columns = Some [pid_column, nameless_column],
         table = Some \<lparr> table_columns = [pid_column, nameless_column] \<rparr> \<rparr> task_two
     = Inl (ValueError nameless_column)"
  by (simp add: StructTextRenderer_init_def TextTable_def StructTextRenderer_render_compact_def
      pid_column_def nameless_column_def example_getattr_def task_one_def task_two_def ustr_def)

theorem struct_columns_checked_when_rendering_witness:
  "TextTable [pid_column, nameless_column] = Inr \<lparr> table_columns = [pid_column, nameless_column] \<rparr>
   \<and> column_values example_getattr task_one [pid_column] = Inr [ustr ''1'']
   \<and> map_of nameless_column ''cname'' = None
   \<and> StructTextRenderer_init TextTable (Some [pid_column, nameless_column]) =
       Inr \<lparr> columns = Some [pid_column, nameless_column],
             table = Some \<lparr> table_columns = [pid_column, nameless_column] \<rparr> \<rparr>
   \<and> StructTextRenderer_render_compact example_getattr example_get_row (\<lambda>target. [])
       \<lparr> columns = Some ([pid_column] @ nameless_column # []),
         table = Some \<lparr> table_columns = [pid_column, nameless_column] \<rparr> \<rparr> task_one
     = Inl (ValueError nameless_column)"
proof -
  have t: "TextTable [pid_column, nameless_column] = Inr \<lparr> table_columns = [pid_column, nameless_column] \<rparr>"
    by (simp add: TextTable_def)
  have v: "column_values example_getattr task_one [pid_column] = Inr [ustr ''1'']"
    by (simp add: pid_column_def example_getattr_def task_one_def ustr_def)
  have n: "map_of nameless_column ''cname'' = None"
    by (simp add: nameless_column_def)
  show ?thesis
    using t v n
      struct_columns_checked_when_rendering [of TextTable "[pid_column, nameless_column]"
        "\<lparr> table_columns = [pid_column, nameless_column] \<rparr>"
        "\<lparr> columns = Some ([pid_column] @ nameless_column # []),
           table = Some \<lparr> table_columns = [pid_column, nameless_column] \<rparr> \<rparr>"
        "[pid_column]" nameless_column "[]" example_getattr task_one "[ustr ''1'']"
        example_get_row "\<lambda>target. []"]
    by simp
qed

section \<open>Properties of the full render of a pointer\<close>

lemma getattr_render_full_Pointer:
  "getattr_renderer PointerTextRenderer ''render_full'' =
     Some (Function PointerTextRenderer ''render_full'')"
  by (simp add: getattr_renderer_def mro_def TextObjectRenderer_body_def eval_nat_numeral)

lemma getattr_render_full_Flags:
  "getattr_renderer FlagsTextRenderer ''render_full'' =
     Some (Function FlagsTextRenderer ''render_full'')"
  by (simp add: getattr_renderer_def mro_def TextObjectRenderer_body_def eval_nat_numeral)

lemma render_full_Pointer:
  "render_full M PointerTextRenderer target =
     (if is_null M (deref M target) then Some (Inr (Cell (ustr ''-'')))
      else render_full M (ForTarget M (deref M target)) (deref M target))"
  by (subst render_full.simps) (simp add: getattr_render_full_Pointer Let_def)

text \<open>
  C3. For a pointer whose dereferenced target is not the null sentinel, the full render of
  the pointer is the full render of the class that the registry resolves for the target,
  invoked on the target: the same cell or the same error, and a render that does not
  return exactly when the other does not. For a null target it is the cell "-".
\<close>

theorem pointer_render_full_delegates:
  "(\<not> is_null M (deref M target) \<longrightarrow>
      PointerTextRenderer_render_full M target =
        render_full M (ForTarget M (deref M target)) (deref M target))
   \<and> (is_null M (deref M target) \<longrightarrow>
      PointerTextRenderer_render_full M target = Some (Inr (Cell (ustr ''-''))))"
  by (simp add: PointerTextRenderer_render_full_def render_full_Pointer)

lemma example_render_full_flags:
  "render_full example_model FlagsTextRenderer (FlagsValue example_flags) =
     Some (Inr (Cell (ustr ''R, W'')))"
  by (subst render_full.simps)
    (simp add: getattr_render_full_Flags example_model_def FlagsTextRenderer_render_full_def
      FlagsTextRenderer_flags_def example_flags_def ustr_def)

text \<open>The render of the pointer that points to itself does not return.\<close>

lemma example_self_pointer_some:
  assumes "render_full M c target = Some r"
  shows "\<not> (M = example_model \<and> c = PointerTextRenderer \<and> target = Ptr 30)"
proof (rule render_full.raw_induct
    [where P = "\<lambda>M c t y. \<not> (M = example_model \<and> c = PointerTextRenderer \<and> t = Ptr 30)"
       and M = M and c = c and target = target and y = r])
  show "render_full M c target = Some r" by fact
next
  fix rf :: "example_value object_model \<Rightarrow> renderer_class \<Rightarrow> example_value \<Rightarrow> (error + cell) option"
  fix M c target y
  assume IH: "\<And>M c t y. rf M c t = Some y \<Longrightarrow>
      \<not> (M = example_model \<and> c = PointerTextRenderer \<and> t = Ptr 30)"
  assume body: "(case getattr_renderer c ''render_full'' of
      None \<Rightarrow> Some (Inl (AttributeError ''render_full''))
      | Some (Function d name) \<Rightarrow>
          if d = PointerTextRenderer \<and> name = ''render_full''
          then let target_obj = deref M target
               in if is_null M target_obj
                  then Some (Inr (Cell (ustr ''-'')))
                  else rf M (ForTarget M target_obj) target_obj
          else Some (other_render_full M d name target)
      | Some Attribute \<Rightarrow> Some (Inl TypeError)) =
     Some y"
  show "\<not> (M = example_model \<and> c = PointerTextRenderer \<and> target = Ptr 30)"
  proof
    assume a: "M = example_model \<and> c = PointerTextRenderer \<and> target = Ptr 30"
    with body have "rf example_model PointerTextRenderer (Ptr 30) = Some y"
      by (simp add: getattr_render_full_Pointer example_model_def example_deref_def)
    from IH [OF this] show False by simp
  qed
qed

lemma example_self_pointer:
  "render_full example_model PointerTextRenderer (Ptr 30) = None"
  using example_self_pointer_some [of example_model PointerTextRenderer "Ptr 30"]
  by (cases "render_full example_model PointerTextRenderer (Ptr 30)") auto

theorem pointer_render_full_delegates_witness:
  "\<not> is_null example_model (deref example_model (Ptr 10))
   \<and> \<not> is_null example_model (deref example_model (Ptr 20))
   \<and> ForTarget example_model (deref example_model (Ptr 10)) = PointerTextRenderer
   \<and> ForTarget example_model (deref example_model (Ptr 20)) = FlagsTextRenderer
   \<and> PointerTextRenderer_render_full example_model (Ptr 20) = Some (Inr (Cell (ustr ''R, W'')))
   \<and> PointerTextRenderer_render_full example_model (Ptr 10) = Some (Inr (Cell (ustr ''R, W'')))
   \<and> PointerTextRenderer_render_full example_model (Ptr 40) = Some (Inr (Cell (ustr ''-'')))
   \<and> deref example_model (Ptr 30) = Ptr 30
   \<and> PointerTextRenderer_render_full example_model (Ptr 30) = None"
proof -
  have d: "deref example_model (Ptr 10) = Ptr 20"
    "deref example_model (Ptr 20) = FlagsValue example_flags"
    "deref example_model (Ptr 40) = NullValue"
    by (simp_all add: example_model_def example_deref_def)
  have n: "\<not> is_null example_model (Ptr 20)" "\<not> is_null example_model (FlagsValue example_flags)"
    "is_null example_model NullValue"
    by (simp_all add: example_model_def)
  have f: "ForTarget example_model (Ptr 20) = PointerTextRenderer"
    "ForTarget example_model (FlagsValue example_flags) = FlagsTextRenderer"
    by (simp_all add: example_model_def)
  have two: "PointerTextRenderer_render_full example_model (Ptr 20) = Some (Inr (Cell (ustr ''R, W'')))"
    using pointer_render_full_delegates [of example_model "Ptr 20"]
    by (simp add: d n f example_render_full_flags)
  have one: "PointerTextRenderer_render_full example_model (Ptr 10) = Some (Inr (Cell (ustr ''R, W'')))"
    using pointer_render_full_delegates [of example_model "Ptr 10"] two
    by (simp add: d n f PointerTextRenderer_render_full_def)
  have four: "PointerTextRenderer_render_full example_model (Ptr 40) = Some (Inr (Cell (ustr ''-'')))"
    using pointer_render_full_delegates [of example_model "Ptr 40"]
    by (simp add: d n)
  have three: "deref example_model (Ptr 30) = Ptr 30"
    by (simp add: example_model_def example_deref_def)
  have loop: "PointerTextRenderer_render_full example_model (Ptr 30) = None"
    by (simp add: PointerTextRenderer_render_full_def example_self_pointer)
  show ?thesis using d n f one two four three loop by simp
qed

end
